theory Spec2Isabelle
  imports Complex_Main "HOL-Library.Sublist"
begin

section \<open>Pizza Home backend: a shallow embedding of \<open>pizza_home_backend.py\<close>\<close>

text \<open>
  The embedding follows the single source file. Python strings are modelled as
  \<^typ>\<open>string\<close>, one \<^typ>\<open>char\<close> per code point below 256. Dictionaries whose
  iteration order the code observes (price tables, the zone table) are association
  lists in insertion order; the session store and the \<open>orders\<close> table, which are only
  looked up by key, are maps. An exception is a value of \<open>py_error\<close>; a handler returns
  its response together with the state it leaves behind. The clock
  (\<open>datetime.utcnow().isoformat()\<close>), the identifier source
  (\<open>uuid.uuid4().hex[:8].upper()\<close>) and the library call
  \<open>difflib.get_close_matches(text, names, n=1, cutoff=0.5)\<close> are inputs of the
  functions that use them.
\<close>

subsection \<open>Exceptions\<close>

datatype py_error =
    KeyError string
  | IndexError
  | StopIteration
  | AttributeError
  | TypeError
  | IntegrityError

subsection \<open>String operations\<close>

definition lower_char :: "char \<Rightarrow> char" where
  "lower_char c =
     (let n = (of_char c :: nat) in
      if (65 \<le> n \<and> n \<le> 90) \<or> (192 \<le> n \<and> n \<le> 222 \<and> n \<noteq> 215)
      then char_of (n + 32) else c)"

definition lower :: "string \<Rightarrow> string" where
  "lower s = map lower_char s"

text \<open>\<open>upper\<close> and \<open>capitalize\<close> are only applied to the size tokens, which are ASCII.\<close>

definition upper_char :: "char \<Rightarrow> char" where
  "upper_char c =
     (let n = (of_char c :: nat) in
      if 97 \<le> n \<and> n \<le> 122 then char_of (n - 32) else c)"

definition upper :: "string \<Rightarrow> string" where
  "upper s = map upper_char s"

definition capitalize :: "string \<Rightarrow> string" where
  "capitalize s = (case s of [] \<Rightarrow> [] | c # cs \<Rightarrow> upper_char c # lower cs)"

definition is_space :: "char \<Rightarrow> bool" where
  "is_space c =
     (let n = (of_char c :: nat) in
      (9 \<le> n \<and> n \<le> 13) \<or> (28 \<le> n \<and> n \<le> 32) \<or> n = 133 \<or> n = 160)"

definition strip :: "string \<Rightarrow> string" where
  "strip s = rev (dropWhile is_space (rev (dropWhile is_space s)))"

text \<open>\<open>s.startswith(p)\<close> and \<open>needle in hay\<close>.\<close>

fun starts_with :: "string \<Rightarrow> string \<Rightarrow> bool" where
  "starts_with s [] = True"
| "starts_with [] (p # ps) = False"
| "starts_with (c # cs) (p # ps) = (c = p \<and> starts_with cs ps)"

fun contains :: "string \<Rightarrow> string \<Rightarrow> bool" where
  "contains needle [] = (needle = [])"
| "contains needle (c # cs) = (starts_with (c # cs) needle \<or> contains needle cs)"

text \<open>\<open>any(k in s for k in keys)\<close>.\<close>

fun any_in :: "string list \<Rightarrow> string \<Rightarrow> bool" where
  "any_in [] s = False"
| "any_in (k # ks) s = (contains k s \<or> any_in ks s)"

subsection \<open>Menu catalog and delivery zones\<close>

record menu_item =
  name :: string
  prices :: "(string \<times> int) list"

definition default_menu :: "menu_item list" where
  "default_menu =
     [\<lparr>name = ''Chicken Tikka Pizza'', prices = [(''Small'', 350), (''Medium'', 650), (''Large'', 950)]\<rparr>,
      \<lparr>name = ''Pepperoni Pizza'', prices = [(''Small'', 400), (''Medium'', 700), (''Large'', 1000)]\<rparr>,
      \<lparr>name = ''Margherita Pizza'', prices = [(''Small'', 300), (''Medium'', 550), (''Large'', 800)]\<rparr>,
      \<lparr>name = ''Fries'', prices = [(''OneSize'', 120)]\<rparr>,
      \<lparr>name = ''Pepsi 1.5L'', prices = [(''OneSize'', 250)]\<rparr>]"

definition default_zones :: "(string \<times> int) list" where
  "default_zones =
     [(''City Center'', 80), (''Fauji Colony'', 100), (''Near DHQ'', 120), (''Outskirts'', 150)]"

subsection \<open>\<open>match_menu_item\<close>\<close>

definition size_tokens :: "string list" where
  "size_tokens =
     [''Large'', ''large'', ''L'', ''l'', ''Medium'', ''medium'', ''M'', ''m'',
      ''Small'', ''small'', ''S'', ''s'']"

definition normalize_size :: "string \<Rightarrow> string" where
  "normalize_size s = (if length s > 1 then capitalize s else upper s)"

text \<open>The scan for a size word: the first token of the list that occurs anywhere in the text.\<close>

fun detect_size :: "string list \<Rightarrow> string \<Rightarrow> string option" where
  "detect_size [] s = None"
| "detect_size (k # ks) s =
     (if contains k s then Some (normalize_size k) else detect_size ks s)"

text \<open>\<open>next(iter(prices.values()))\<close> with \<open>list(prices.keys())[0]\<close>.\<close>

fun first_price :: "(string \<times> int) list \<Rightarrow> py_error + (int \<times> string)" where
  "first_price [] = Inl StopIteration"
| "first_price ((k, v) # rest) = Inr (v, k)"

type_synonym match_result = "(menu_item \<times> int \<times> string) option"

definition first_entry :: "menu_item \<Rightarrow> py_error + match_result" where
  "first_entry it =
     (case first_price (prices it) of
        Inl e \<Rightarrow> Inl e
      | Inr (p, k) \<Rightarrow> Inr (Some (it, p, k)))"

text \<open>The branch \<open>if size:\<close> of the fuzzy pass.\<close>

definition choose_with_size :: "menu_item \<Rightarrow> string \<Rightarrow> py_error + match_result" where
  "choose_with_size it sz =
     (case map_of (prices it) sz of
        Some p \<Rightarrow> Inr (Some (it, p, sz))
      | None \<Rightarrow>
          (case map_of (prices it) ''OneSize'' of
             Some p \<Rightarrow> Inr (Some (it, p, ''OneSize''))
           | None \<Rightarrow>
               (case map_of (prices it) ''Medium'' of
                  Some p \<Rightarrow> Inr (Some (it, p, ''Medium''))
                | None \<Rightarrow> first_entry it)))"

text \<open>The branch with no size of the fuzzy pass, and the body of the substring pass.\<close>

definition choose_default :: "menu_item \<Rightarrow> py_error + match_result" where
  "choose_default it =
     (case map_of (prices it) ''Medium'' of
        Some p \<Rightarrow> Inr (Some (it, p, ''Medium''))
      | None \<Rightarrow>
          (case map_of (prices it) ''OneSize'' of
             Some p \<Rightarrow> Inr (Some (it, p, ''OneSize''))
           | None \<Rightarrow> first_entry it))"

fun find_by_name :: "menu_item list \<Rightarrow> string \<Rightarrow> menu_item option" where
  "find_by_name [] m = None"
| "find_by_name (it # its) m = (if name it = m then Some it else find_by_name its m)"

fun find_contained :: "menu_item list \<Rightarrow> string \<Rightarrow> menu_item option" where
  "find_contained [] s = None"
| "find_contained (it # its) s =
     (if contains (lower (name it)) s then Some it else find_contained its s)"

text \<open>
  \<open>gcm\<close> stands for \<open>difflib.get_close_matches(text, names, n=1, cutoff=0.5)\<close>: the list
  of the best match, or the empty list.
\<close>

definition match_menu_item ::
  "(string \<Rightarrow> string list \<Rightarrow> string list) \<Rightarrow> menu_item list \<Rightarrow> string \<Rightarrow> py_error + match_result" where
  "match_menu_item gcm items msg =
     (let s = strip msg;
          sz = detect_size size_tokens s;
          names = map name items;
          found = (case gcm s names of [] \<Rightarrow> None | m # ms \<Rightarrow> find_by_name items m)
      in case found of
           Some it \<Rightarrow>
             (case sz of
                Some z \<Rightarrow> choose_with_size it z
              | None \<Rightarrow> choose_default it)
         | None \<Rightarrow>
             (case find_contained items (lower s) of
                Some it \<Rightarrow> choose_default it
              | None \<Rightarrow> Inr None))"

subsection \<open>\<open>calculate_delivery_charge\<close>\<close>

fun find_zone :: "(string \<times> int) list \<Rightarrow> string \<Rightarrow> (int \<times> string) option" where
  "find_zone [] addr = None"
| "find_zone ((zone, charge) # zs) addr =
     (if contains (lower zone) addr then Some (charge, zone) else find_zone zs addr)"

definition calculate_delivery_charge ::
  "(string \<times> int) list \<Rightarrow> string \<Rightarrow> py_error + (int \<times> string)" where
  "calculate_delivery_charge zones address_text =
     (case find_zone zones (lower address_text) of
        Some r \<Rightarrow> Inr r
      | None \<Rightarrow>
          (case zones of
             [] \<Rightarrow> Inl IndexError
           | (zone, charge) # zs \<Rightarrow> Inr (charge, zone)))"

subsection \<open>Orders: the \<open>orders\<close> table\<close>

record cart_item =
  item_name :: string
  item_size :: string
  item_price :: int
  item_qty :: int

text \<open>
  One row of the table, and the order dictionary that \<open>persist_order_to_db\<close> receives.
  \<open>order_total\<close> is the column \<open>total\<close>; \<open>items_json\<close> holds the list that
  \<open>json.dumps\<close> serialises.
\<close>

record order_row =
  order_id :: string
  customer_phone :: string
  customer_name :: "string option"
  items_json :: "cart_item list"
  subtotal :: int
  delivery_charges :: int
  order_total :: int
  payment_method :: string
  payment_status :: string
  status :: string
  address :: "string option"
  lat :: "real option"
  lng :: "real option"
  created_at :: "string option"
  verified_at :: "string option"
  screenshot_path :: "string option"

type_synonym store = "string \<rightharpoonup> order_row"

text \<open>
  A store operation returns \<open>None\<close> when it returns normally and \<open>Some e\<close> when it
  raises \<open>e\<close>, together with the table it leaves.

  \<open>INSERT INTO orders\<close>: \<open>order_id\<close> is the primary key, so a second row with the
  same key raises \<open>sqlite3.IntegrityError\<close> and nothing is committed. The statement
  names every column but \<open>verified_at\<close>, which starts as NULL.
\<close>

definition persist_order_to_db :: "order_row \<Rightarrow> store \<Rightarrow> py_error option \<times> store" where
  "persist_order_to_db order db =
     (case db (order_id order) of
        Some existing \<Rightarrow> (Some IntegrityError, db)
      | None \<Rightarrow> (None, db(order_id order \<mapsto> order\<lparr>verified_at := None\<rparr>)))"

text \<open>\<open>if screenshot_path:\<close> holds for a string that is not empty.\<close>

definition truthy :: "string option \<Rightarrow> bool" where
  "truthy v = (case v of None \<Rightarrow> False | Some s \<Rightarrow> s \<noteq> [])"

text \<open>The row that the \<open>UPDATE\<close> of \<open>update_order_payment_status\<close> writes.\<close>

definition updated_row :: "string \<Rightarrow> string \<Rightarrow> string option \<Rightarrow> order_row \<Rightarrow> order_row" where
  "updated_row now new_payment_status shot row =
     (if truthy shot
      then row\<lparr>payment_status := new_payment_status,
               status := (if new_payment_status = ''pending''
                          then ''awaiting_verification'' else ''confirmed''),
               screenshot_path := shot,
               verified_at := Some now\<rparr>
      else row\<lparr>payment_status := new_payment_status,
               status := (if new_payment_status = ''paid'' then ''confirmed'' else ''pending'')\<rparr>)"

text \<open>\<open>UPDATE orders SET ... WHERE order_id=?\<close> changes the rows that match, if any.\<close>

definition update_order_payment_status ::
  "string \<Rightarrow> string \<Rightarrow> string \<Rightarrow> string option \<Rightarrow> store \<Rightarrow> py_error option \<times> store" where
  "update_order_payment_status now oid new_payment_status shot db =
     (case db oid of
        None \<Rightarrow> (None, db)
      | Some row \<Rightarrow> (None, db(oid \<mapsto> updated_row now new_payment_status shot row)))"

text \<open>\<open>UPDATE orders SET status=? WHERE order_id=?\<close>, as \<open>verify_order\<close> issues it.\<close>

definition set_status :: "string \<Rightarrow> string \<Rightarrow> store \<Rightarrow> store" where
  "set_status oid new_status db =
     (case db oid of
        None \<Rightarrow> db
      | Some row \<Rightarrow> db(oid \<mapsto> row\<lparr>status := new_status\<rparr>))"

subsection \<open>Sessions, replies and the state of the service\<close>

text \<open>A session is a dictionary; a key that is absent is \<open>None\<close>.\<close>

record session =
  s_cart :: "cart_item list option"
  s_subtotal :: "int option"
  s_delivery_charges :: "int option"
  s_total :: "int option"
  s_address :: "string option"
  s_awaiting_address :: "bool option"
  s_pending_order_id :: "string option"
  s_last_location :: "string option"
  s_name :: "string option"

definition empty_session :: session where
  "empty_session =
     \<lparr>s_cart = None, s_subtotal = None, s_delivery_charges = None, s_total = None,
      s_address = None, s_awaiting_address = None, s_pending_order_id = None,
      s_last_location = None, s_name = None\<rparr>"

text \<open>The order dictionary that \<open>notify_rider\<close> reads.\<close>

record rider_order =
  r_order_id :: string
  r_customer_phone :: string
  r_items :: "cart_item list"
  r_address :: "string option"
  r_total :: int

definition rider_view :: "order_row \<Rightarrow> rider_order" where
  "rider_view order =
     \<lparr>r_order_id = order_id order, r_customer_phone = customer_phone order,
      r_items = items_json order, r_address = address order, r_total = order_total order\<rparr>"

text \<open>
  One constructor per call of \<open>send_whatsapp\<close>, with the values its text interpolates.
\<close>

datatype reply =
    Usage_Prompt
  | Menu_Listing "menu_item list"
  | Added_To_Cart string string int int
  | Item_Not_Found
  | Cart_Empty_Send_Item
  | Subtotal_Prompt int
  | Cart_Empty_Payment
  | Ask_Address
  | Cart_Empty_Pickup
  | Pickup_Confirmed string
  | Order_Preview int string int int
  | Ask_Address_First
  | Bank_Details int string
  | Upload_Instructions
  | Ask_Order_Id
  | Order_Status string string string int "string option"
  | Order_Not_Found
  | Did_Not_Understand
  | Got_Location
  | Payment_Verified string
  | Payment_Not_Verified string

datatype response =
    Status_Ok
  | No_Sender_Id
  | Order_Not_Found_404
  | Status_Verified
  | Status_Failed
  | Raised py_error

text \<open>
  \<open>sessions\<close> is the global dictionary, \<open>orders\<close> the table, \<open>outbox\<close> the messages
  handed to \<open>send_whatsapp\<close> in order, and \<open>rider_jobs\<close> the orders for which a
  \<open>notify_rider\<close> thread was started.
\<close>

record world =
  sessions :: "string \<rightharpoonup> session"
  orders :: store
  outbox :: "(string \<times> reply) list"
  rider_jobs :: "rider_order list"

definition send_whatsapp :: "string \<Rightarrow> reply \<Rightarrow> world \<Rightarrow> world" where
  "send_whatsapp to r w = w\<lparr>outbox := outbox w @ [(to, r)]\<rparr>"

definition start_notify_rider :: "rider_order \<Rightarrow> world \<Rightarrow> world" where
  "start_notify_rider order w = w\<lparr>rider_jobs := rider_jobs w @ [order]\<rparr>"

text \<open>\<open>sum(i['price'] * i.get('qty',1) for i in cart)\<close> and \<open>sum(i['price'] for i in cart)\<close>.\<close>

definition cart_total :: "cart_item list \<Rightarrow> int" where
  "cart_total c = sum_list (map (\<lambda>i. item_price i * item_qty i) c)"

definition price_sum :: "cart_item list \<Rightarrow> int" where
  "price_sum c = sum_list (map item_price c)"

text \<open>
  \<open>None\<close> exactly when \<open>not sess or not sess.get('cart')\<close>; otherwise the session and
  its cart.
\<close>

definition session_with_cart :: "session option \<Rightarrow> (session \<times> cart_item list) option" where
  "session_with_cart so =
     (case so of
        None \<Rightarrow> None
      | Some sess \<Rightarrow>
          (case s_cart sess of
             None \<Rightarrow> None
           | Some c \<Rightarrow> if c = [] then None else Some (sess, c)))"

subsection \<open>\<open>whatsapp_webhook\<close>\<close>

text \<open>
  The parsed request: \<open>sender\<close> is \<open>payload.get('from') or payload.get('wa_id') or
  payload.get('contact')\<close> (\<open>None\<close> when that is falsy), \<open>has_text\<close> and
  \<open>has_location\<close> say whether the keys are in the payload, \<open>text_body\<close> is the text
  the first branch extracts and \<open>loc\<close> the location of the second.
\<close>

record payload =
  sender :: "string option"
  message_type :: string
  has_text :: bool
  text_body :: "string option"
  has_location :: bool
  loc :: "string option"

datatype intent =
    Usage
  | Show_Menu
  | Select_Item
  | Checkout
  | Cash_On_Delivery
  | Pickup
  | Give_Address
  | Online
  | Upload
  | Track
  | Lookup
  | Unknown

text \<open>
  The \<open>if\<close>/\<open>elif\<close> cascade, top to bottom. \<open>awaiting\<close> is
  \<open>sessions.get(sender, {}).get('awaiting_address')\<close>.
\<close>

definition classify :: "string option \<Rightarrow> bool \<Rightarrow> intent" where
  "classify msg awaiting =
     (let lower_msg = lower (case msg of None \<Rightarrow> [] | Some s \<Rightarrow> s) in
      if any_in [''order'', ''menu'', ''pizza'', ''place order'', ''order karna'', ''order krna'']
           lower_msg then Usage
      else if lower_msg = ''menu'' \<or> contains ''show menu'' lower_msg then Show_Menu
      else if any_in [''large'', ''medium'', ''small'', ''fries'', ''pepsi''] lower_msg
        then Select_Item
      else if lower_msg = ''checkout'' then Checkout
      else if lower_msg = ''cod'' \<or> contains ''cash'' lower_msg then Cash_On_Delivery
      else if lower_msg = ''pickup'' then Pickup
      else if contains ''confirm address'' lower_msg \<or> contains ''address'' lower_msg \<or> awaiting
        then Give_Address
      else if lower_msg = ''online'' then Online
      else if lower_msg = ''upload screenshot'' \<or> starts_with lower_msg ''upload''
                \<or> contains ''screenshot'' lower_msg then Upload
      else if lower_msg = ''track'' \<or> contains ''track order'' lower_msg then Track
      else if (case msg of None \<Rightarrow> False | Some s \<Rightarrow> s \<noteq> [] \<and> starts_with s ''PH-'')
        then Lookup
      else Unknown)"

definition awaiting_address :: "session option \<Rightarrow> bool" where
  "awaiting_address so =
     (case so of None \<Rightarrow> False | Some sess \<Rightarrow> s_awaiting_address sess = Some True)"

text \<open>The branch that adds an item to the cart.\<close>

definition select_item ::
  "(string \<Rightarrow> string list \<Rightarrow> string list) \<Rightarrow> menu_item list \<Rightarrow> string \<Rightarrow> string \<Rightarrow> world
     \<Rightarrow> response \<times> world" where
  "select_item gcm menu snd_id msg w =
     (case match_menu_item gcm menu msg of
        Inl e \<Rightarrow> (Raised e, w)
      | Inr None \<Rightarrow> (Status_Ok, send_whatsapp snd_id Item_Not_Found w)
      | Inr (Some (it, price, sz)) \<Rightarrow>
          (let sess = (case sessions w snd_id of
                         None \<Rightarrow> empty_session\<lparr>s_cart := Some []\<rparr>
                       | Some existing \<Rightarrow> existing)
           in case s_cart sess of
                None \<Rightarrow> (Raised (KeyError ''cart''), w)
              | Some c \<Rightarrow>
                  (let c' = c @ [\<lparr>item_name = name it, item_size = sz,
                                   item_price = price, item_qty = 1\<rparr>];
                       sub = cart_total c'
                   in (Status_Ok,
                       send_whatsapp snd_id (Added_To_Cart sz (name it) price sub)
                         (w\<lparr>sessions := (sessions w)(snd_id \<mapsto> sess\<lparr>s_cart := Some c'\<rparr>)\<rparr>)))))"

definition checkout :: "string \<Rightarrow> world \<Rightarrow> response \<times> world" where
  "checkout snd_id w =
     (case session_with_cart (sessions w snd_id) of
        None \<Rightarrow> (Status_Ok, send_whatsapp snd_id Cart_Empty_Send_Item w)
      | Some (sess, c) \<Rightarrow>
          (let sub = cart_total c in
           (Status_Ok,
            send_whatsapp snd_id (Subtotal_Prompt sub)
              (w\<lparr>sessions := (sessions w)(snd_id \<mapsto> sess\<lparr>s_subtotal := Some sub\<rparr>)\<rparr>))))"

definition cash_on_delivery :: "string \<Rightarrow> world \<Rightarrow> response \<times> world" where
  "cash_on_delivery snd_id w =
     (case session_with_cart (sessions w snd_id) of
        None \<Rightarrow> (Status_Ok, send_whatsapp snd_id Cart_Empty_Payment w)
      | Some (sess, c) \<Rightarrow>
          (Status_Ok,
           (send_whatsapp snd_id Ask_Address w)
             \<lparr>sessions := (sessions w)(snd_id \<mapsto> sess\<lparr>s_awaiting_address := Some True\<rparr>)\<rparr>))"

text \<open>
  The branch \<open>pickup\<close>: \<open>sess['subtotal']\<close> is read with no default, before the order
  is built.
\<close>

definition pickup :: "string \<Rightarrow> string \<Rightarrow> string \<Rightarrow> world \<Rightarrow> response \<times> world" where
  "pickup fresh now snd_id w =
     (case session_with_cart (sessions w snd_id) of
        None \<Rightarrow> (Status_Ok, send_whatsapp snd_id Cart_Empty_Pickup w)
      | Some (sess, c) \<Rightarrow>
          (case s_subtotal sess of
             None \<Rightarrow> (Raised (KeyError ''subtotal''), w)
           | Some sub \<Rightarrow>
               (let oid = ''PH-'' @ fresh;
                    order = \<lparr>order_id = oid, customer_phone = snd_id,
                             customer_name = s_name sess, items_json = c, subtotal = sub,
                             delivery_charges = 0, order_total = sub,
                             payment_method = ''cod'', payment_status = ''pending'',
                             status = ''confirmed'', address = Some ''PICKUP'',
                             lat = None, lng = None, created_at = Some now,
                             verified_at = None, screenshot_path = None\<rparr>
                in case persist_order_to_db order (orders w) of
                     (Some e, db) \<Rightarrow> (Raised e, w\<lparr>orders := db\<rparr>)
                   | (None, db) \<Rightarrow>
                       (Status_Ok,
                        (start_notify_rider (rider_view order)
                           (send_whatsapp snd_id (Pickup_Confirmed oid) (w\<lparr>orders := db\<rparr>)))
                          \<lparr>sessions := (sessions w)(snd_id := None)\<rparr>))))"

text \<open>
  The branch that takes the message as the address. The session is created and written
  before \<open>calculate_delivery_charge\<close> runs, so it keeps the address when that call raises.
\<close>

definition give_address ::
  "(string \<times> int) list \<Rightarrow> string \<Rightarrow> string option \<Rightarrow> world \<Rightarrow> response \<times> world" where
  "give_address zones snd_id msg w =
     (let sess0 = (case sessions w snd_id of None \<Rightarrow> empty_session | Some existing \<Rightarrow> existing);
          sess1 = sess0\<lparr>s_address := msg, s_awaiting_address := Some False\<rparr>;
          w1 = w\<lparr>sessions := (sessions w)(snd_id \<mapsto> sess1)\<rparr>
      in case msg of
           None \<Rightarrow> (Raised AttributeError, w1)
         | Some addr \<Rightarrow>
             (case calculate_delivery_charge zones addr of
                Inl e \<Rightarrow> (Raised e, w1)
              | Inr (dc, zone) \<Rightarrow>
                  (let sub = (case s_subtotal sess1 of
                                Some cached \<Rightarrow> cached
                              | None \<Rightarrow> price_sum (case s_cart sess1 of None \<Rightarrow> [] | Some c \<Rightarrow> c));
                       tot = sub + dc;
                       sess2 = sess1\<lparr>s_delivery_charges := Some dc, s_total := Some tot\<rparr>
                   in (Status_Ok,
                       send_whatsapp snd_id (Order_Preview dc zone sub tot)
                         (w\<lparr>sessions := (sessions w)(snd_id \<mapsto> sess2)\<rparr>)))))"

text \<open>The branch \<open>online\<close>; \<open>if not sess.get('delivery_charges')\<close> also holds for a fee of 0.\<close>

definition online :: "string \<Rightarrow> string \<Rightarrow> string \<Rightarrow> world \<Rightarrow> response \<times> world" where
  "online fresh now snd_id w =
     (case session_with_cart (sessions w snd_id) of
        None \<Rightarrow> (Status_Ok, send_whatsapp snd_id Cart_Empty_Payment w)
      | Some (sess, c) \<Rightarrow>
          (let sub = (case s_subtotal sess of Some cached \<Rightarrow> cached | None \<Rightarrow> price_sum c);
               dc = (case s_delivery_charges sess of None \<Rightarrow> 0 | Some d \<Rightarrow> d)
           in if dc = 0 then (Status_Ok, send_whatsapp snd_id Ask_Address_First w)
              else
                (let tot = sub + dc;
                     oid = ''PH-'' @ fresh;
                     sess' = sess\<lparr>s_total := Some tot, s_pending_order_id := Some oid\<rparr>;
                     w1 = send_whatsapp snd_id (Bank_Details tot oid)
                            (w\<lparr>sessions := (sessions w)(snd_id \<mapsto> sess')\<rparr>);
                     order = \<lparr>order_id = oid, customer_phone = snd_id,
                              customer_name = s_name sess, items_json = c, subtotal = sub,
                              delivery_charges = dc, order_total = tot,
                              payment_method = ''online_manual'', payment_status = ''pending'',
                              status = ''awaiting_payment'', address = s_address sess,
                              lat = None, lng = None, created_at = Some now,
                              verified_at = None, screenshot_path = None\<rparr>
                 in case persist_order_to_db order (orders w1) of
                      (Some e, db) \<Rightarrow> (Raised e, w1\<lparr>orders := db\<rparr>)
                    | (None, db) \<Rightarrow> (Status_Ok, w1\<lparr>orders := db\<rparr>))))"

definition lookup_order :: "string \<Rightarrow> string \<Rightarrow> world \<Rightarrow> response \<times> world" where
  "lookup_order snd_id msg w =
     (let oid = strip msg in
      case orders w oid of
        Some row \<Rightarrow>
          (Status_Ok,
           send_whatsapp snd_id
             (Order_Status oid (status row) (payment_status row) (order_total row) (created_at row)) w)
      | None \<Rightarrow> (Status_Ok, send_whatsapp snd_id Order_Not_Found w))"

text \<open>The routing of a message once the sender is known.\<close>

definition route ::
  "(string \<Rightarrow> string list \<Rightarrow> string list) \<Rightarrow> menu_item list \<Rightarrow> (string \<times> int) list
     \<Rightarrow> string \<Rightarrow> string \<Rightarrow> string \<Rightarrow> string option \<Rightarrow> world \<Rightarrow> response \<times> world" where
  "route gcm menu zones fresh now snd_id msg w =
     (case classify msg (awaiting_address (sessions w snd_id)) of
        Usage \<Rightarrow> (Status_Ok, send_whatsapp snd_id Usage_Prompt w)
      | Show_Menu \<Rightarrow> (Status_Ok, send_whatsapp snd_id (Menu_Listing menu) w)
      | Select_Item \<Rightarrow>
          select_item gcm menu snd_id (case msg of None \<Rightarrow> [] | Some s \<Rightarrow> s) w
      | Checkout \<Rightarrow> checkout snd_id w
      | Cash_On_Delivery \<Rightarrow> cash_on_delivery snd_id w
      | Pickup \<Rightarrow> pickup fresh now snd_id w
      | Give_Address \<Rightarrow> give_address zones snd_id msg w
      | Online \<Rightarrow> online fresh now snd_id w
      | Upload \<Rightarrow> (Status_Ok, send_whatsapp snd_id Upload_Instructions w)
      | Track \<Rightarrow> (Status_Ok, send_whatsapp snd_id Ask_Order_Id w)
      | Lookup \<Rightarrow> lookup_order snd_id (case msg of None \<Rightarrow> [] | Some s \<Rightarrow> s) w
      | Unknown \<Rightarrow> (Status_Ok, send_whatsapp snd_id Did_Not_Understand w))"

definition whatsapp_webhook ::
  "(string \<Rightarrow> string list \<Rightarrow> string list) \<Rightarrow> menu_item list \<Rightarrow> (string \<times> int) list
     \<Rightarrow> string \<Rightarrow> string \<Rightarrow> payload \<Rightarrow> world \<Rightarrow> response \<times> world" where
  "whatsapp_webhook gcm menu zones fresh now p w =
     (let is_text = (message_type p = ''text'' \<or> has_text p);
          is_location = (\<not> is_text \<and> (message_type p = ''location'' \<or> has_location p));
          msg = (if is_text then text_body p else None)
      in case sender p of
           None \<Rightarrow> (No_Sender_Id, w)
         | Some snd_id \<Rightarrow>
             if is_location
             then (let sess = (case sessions w snd_id of
                                 None \<Rightarrow> empty_session
                               | Some existing \<Rightarrow> existing)
                   in (Status_Ok,
                       send_whatsapp snd_id Got_Location
                         (w\<lparr>sessions := (sessions w)(snd_id \<mapsto> sess\<lparr>s_last_location := loc p\<rparr>)\<rparr>)))
             else route gcm menu zones fresh now snd_id msg w)"

text \<open>A text message of a sender, as the provider posts it.\<close>

definition text_message :: "string \<Rightarrow> string \<Rightarrow> payload" where
  "text_message snd_id body =
     \<lparr>sender = Some snd_id, message_type = ''text'', has_text = True,
      text_body = Some body, has_location = False, loc = None\<rparr>"

text \<open>
  Requests served one after the other: each comes with the identifier and the time that
  its handler would draw.
\<close>

fun serve ::
  "(string \<Rightarrow> string list \<Rightarrow> string list) \<Rightarrow> menu_item list \<Rightarrow> (string \<times> int) list
     \<Rightarrow> (payload \<times> string \<times> string) list \<Rightarrow> world \<Rightarrow> response list \<times> world" where
  "serve gcm menu zones [] w = ([], w)"
| "serve gcm menu zones ((p, fresh, now) # rest) w =
     (case whatsapp_webhook gcm menu zones fresh now p w of
        (r, w1) \<Rightarrow>
          (case serve gcm menu zones rest w1 of
             (rs, w2) \<Rightarrow> (r # rs, w2)))"

definition initial_world :: world where
  "initial_world = \<lparr>sessions = Map.empty, orders = Map.empty, outbox = [], rider_jobs = []\<rparr>"

subsection \<open>\<open>verify_order\<close>\<close>

definition verify_order :: "string \<Rightarrow> bool \<Rightarrow> string \<Rightarrow> world \<Rightarrow> response \<times> world" where
  "verify_order oid verified now w =
     (case orders w oid of
        None \<Rightarrow> (Order_Not_Found_404, w)
      | Some row \<Rightarrow>
          if verified
          then
            (case update_order_payment_status now oid ''paid'' None (orders w) of
               (Some e, db1) \<Rightarrow> (Raised e, w\<lparr>orders := db1\<rparr>)
             | (None, db1) \<Rightarrow>
                 (let w1 = send_whatsapp (customer_phone row) (Payment_Verified oid)
                             (w\<lparr>orders := db1\<rparr>);
                      db2 = set_status oid ''confirmed'' db1;
                      w2 = w1\<lparr>orders := db2\<rparr>
                  in case db2 oid of
                       None \<Rightarrow> (Raised TypeError, w2)
                     | Some row2 \<Rightarrow>
                         (Status_Verified,
                          start_notify_rider
                            \<lparr>r_order_id = oid, r_customer_phone = customer_phone row,
                             r_items = items_json row2, r_address = address row2,
                             r_total = order_total row2\<rparr> w2)))
          else
            (case update_order_payment_status now oid ''failed'' None (orders w) of
               (Some e, db1) \<Rightarrow> (Raised e, w\<lparr>orders := db1\<rparr>)
             | (None, db1) \<Rightarrow>
                 (Status_Failed,
                  send_whatsapp (customer_phone row) (Payment_Not_Verified oid)
                    (w\<lparr>orders := db1\<rparr>))))"

subsection \<open>Example data\<close>

text \<open>An order as the branch \<open>online\<close> stores it, used where a theorem is run on a row.\<close>

definition sample_order :: order_row where
  "sample_order =
     \<lparr>order_id = ''PH-A1B2C3D4'', customer_phone = ''923001112233'', customer_name = None,
      items_json = [\<lparr>item_name = ''Fries'', item_size = ''OneSize'', item_price = 120,
                     item_qty = 1\<rparr>],
      subtotal = 120, delivery_charges = 80, order_total = 200,
      payment_method = ''online_manual'', payment_status = ''pending'',
      status = ''awaiting_payment'', address = Some ''12 City Center'',
      lat = None, lng = None, created_at = Some ''2024-01-01T10:00:00'',
      verified_at = None, screenshot_path = None\<rparr>"

section \<open>Properties\<close>

subsection \<open>Substring search\<close>

lemma starts_with_prefix: "starts_with s p = prefix p s"
  by (induction s p rule: starts_with.induct) auto

lemma contains_sublist: "contains needle hay = sublist needle hay"
  by (induction hay) (auto simp: starts_with_prefix sublist_Cons_right)

subsection \<open>Zone resolution\<close>

lemma find_zone_skip:
  "\<forall>z\<in>set pre. \<not> sublist (lower (fst z)) a \<Longrightarrow> find_zone (pre @ rest) a = find_zone rest a"
  by (induction pre) (auto simp: contains_sublist)

lemma find_zone_none:
  "\<forall>z\<in>set zs. \<not> sublist (lower (fst z)) a \<Longrightarrow> find_zone zs a = None"
  using find_zone_skip [of zs a "[]"] by simp

lemma find_zone_at:
  assumes "i < length zs" and "sublist (lower (fst (zs ! i))) a"
    and "\<forall>j<i. \<not> sublist (lower (fst (zs ! j))) a"
  shows "find_zone zs a = Some (snd (zs ! i), fst (zs ! i))"
proof -
  have split: "zs = take i zs @ (zs ! i) # drop (Suc i) zs"
    using assms(1) by (simp add: id_take_nth_drop)
  have "\<forall>z\<in>set (take i zs). \<not> sublist (lower (fst z)) a"
  proof
    fix z assume "z \<in> set (take i zs)"
    then obtain j where "j < i" "z = zs ! j"
      using assms(1) by (auto simp: in_set_conv_nth)
    then show "\<not> sublist (lower (fst z)) a" using assms(3) by simp
  qed
  then have "find_zone zs a = find_zone ((zs ! i) # drop (Suc i) zs) a"
    using find_zone_skip [of "take i zs" a "(zs ! i) # drop (Suc i) zs"] split by simp
  also have "\<dots> = Some (snd (zs ! i), fst (zs ! i))"
    using assms(2) by (cases "zs ! i") (simp add: contains_sublist)
  finally show ?thesis .
qed

lemma no_zones_raises: "calculate_delivery_charge [] addr = Inl IndexError"
  by (simp add: calculate_delivery_charge_def)

lemma least_hit:
  fixes P :: "nat \<Rightarrow> bool"
  assumes "P i"
  shows "\<exists>m\<le>i. P m \<and> (\<forall>j<m. \<not> P j)"
proof -
  have "P (LEAST n. P n)" using assms by (rule LeastI)
  moreover have "(LEAST n. P n) \<le> i" using assms by (rule Least_le)
  moreover have "\<forall>j<(LEAST n. P n). \<not> P j" using not_less_Least by blast
  ultimately show ?thesis by blast
qed

text \<open>
  Claim C3. The zone resolver lower-cases the address and each zone name and looks for
  the name as a substring of the address, in the order of the zone table. The first
  zone of the table that occurs is returned with its fee; when two zones of the table
  occur in the address, the result is a zone defined no later than the earlier of the
  two, wherever they stand in the address; when no zone occurs and the table is not
  empty, the result is the first zone of the table and its fee.
\<close>

theorem zone_first_defined_wins:
  "(\<forall>i. i < length zones \<and> sublist (lower (fst (zones ! i))) (lower addr)
         \<and> (\<forall>j<i. \<not> sublist (lower (fst (zones ! j))) (lower addr))
       \<longrightarrow> calculate_delivery_charge zones addr = Inr (snd (zones ! i), fst (zones ! i)))
   \<and> (\<forall>i k. i < k \<and> k < length zones
         \<and> sublist (lower (fst (zones ! i))) (lower addr)
         \<and> sublist (lower (fst (zones ! k))) (lower addr)
       \<longrightarrow> (\<exists>m\<le>i. calculate_delivery_charge zones addr
                      = Inr (snd (zones ! m), fst (zones ! m))))
   \<and> (zones \<noteq> [] \<and> (\<forall>z\<in>set zones. \<not> sublist (lower (fst z)) (lower addr))
       \<longrightarrow> calculate_delivery_charge zones addr = Inr (snd (hd zones), fst (hd zones)))"
proof (intro conjI allI impI)
  fix i
  assume "i < length zones \<and> sublist (lower (fst (zones ! i))) (lower addr)
         \<and> (\<forall>j<i. \<not> sublist (lower (fst (zones ! j))) (lower addr))"
  then have "find_zone zones (lower addr) = Some (snd (zones ! i), fst (zones ! i))"
    by (intro find_zone_at) simp_all
  then show "calculate_delivery_charge zones addr = Inr (snd (zones ! i), fst (zones ! i))"
    by (simp add: calculate_delivery_charge_def)
next
  fix i k
  assume h: "i < k \<and> k < length zones
         \<and> sublist (lower (fst (zones ! i))) (lower addr)
         \<and> sublist (lower (fst (zones ! k))) (lower addr)"
  then obtain m where m: "m \<le> i" "sublist (lower (fst (zones ! m))) (lower addr)"
      "\<forall>j<m. \<not> sublist (lower (fst (zones ! j))) (lower addr)"
    using least_hit [of "\<lambda>n. sublist (lower (fst (zones ! n))) (lower addr)" i]
    by auto
  from h m(1) have "m < length zones" by simp
  then have "find_zone zones (lower addr) = Some (snd (zones ! m), fst (zones ! m))"
    using m(2,3) by (rule find_zone_at)
  then show "\<exists>m\<le>i. calculate_delivery_charge zones addr = Inr (snd (zones ! m), fst (zones ! m))"
    using m(1) by (auto simp: calculate_delivery_charge_def)
next
  assume h: "zones \<noteq> [] \<and> (\<forall>z\<in>set zones. \<not> sublist (lower (fst z)) (lower addr))"
  then have "find_zone zones (lower addr) = None"
    by (simp add: find_zone_none)
  with h show "calculate_delivery_charge zones addr = Inr (snd (hd zones), fst (hd zones))"
    by (cases zones) (auto simp: calculate_delivery_charge_def)
qed

lemma city_center_occurs:
  "sublist (lower ''City Center'') (lower ''House 5, Fauji Colony, near CITY CENTER'')"
  unfolding contains_sublist [symmetric] by code_simp

lemma fauji_colony_occurs:
  "sublist (lower ''Fauji Colony'') (lower ''House 5, Fauji Colony, near CITY CENTER'')"
  unfolding contains_sublist [symmetric] by code_simp

lemma model_town_no_zone:
  "\<forall>z\<in>set default_zones. \<not> sublist (lower (fst z)) (lower ''Street 9, Model Town'')"
  unfolding contains_sublist [symmetric] by code_simp

text \<open>
  On the default table: an address that names Fauji Colony before City Center resolves
  to City Center, the zone defined first, and an address that names no zone resolves to
  City Center as well.
\<close>

theorem zone_first_defined_wins_witness:
  "calculate_delivery_charge default_zones ''House 5, Fauji Colony, near CITY CENTER''
     = Inr (80, ''City Center'')
   \<and> calculate_delivery_charge default_zones ''Street 9, Model Town'' = Inr (80, ''City Center'')"
proof -
  let ?a = "''House 5, Fauji Colony, near CITY CENTER''"
  have z: "default_zones ! 0 = (''City Center'', 80)" "default_zones ! 1 = (''Fauji Colony'', 100)"
    "length default_zones = 4" "hd default_zones = (''City Center'', 80)" "default_zones \<noteq> []"
    by (simp_all add: default_zones_def)
  have "\<exists>m\<le>0. calculate_delivery_charge default_zones ?a
           = Inr (snd (default_zones ! m), fst (default_zones ! m))"
    using zone_first_defined_wins [of default_zones ?a] city_center_occurs fauji_colony_occurs z
    by (metis (no_types, lifting) fst_conv zero_less_one one_less_numeral_iff semiring_norm(76))
  then have a: "calculate_delivery_charge default_zones ?a = Inr (80, ''City Center'')"
    using z by simp
  have b: "calculate_delivery_charge default_zones ''Street 9, Model Town''
             = Inr (80, ''City Center'')"
    using zone_first_defined_wins [of default_zones "''Street 9, Model Town''"]
      model_town_no_zone z by simp
  show ?thesis using a b by simp
qed

subsection \<open>The order store\<close>

text \<open>
  Claim C1. For an order that exists, \<open>update_order_payment_status\<close> returns normally,
  stores the payment status it was given, and derives the status: with a screenshot
  reference (a string that is not empty) the status is \<open>awaiting_verification\<close> when the
  payment status is \<open>pending\<close> and \<open>confirmed\<close> otherwise; with no screenshot reference
  it is \<open>confirmed\<close> when the payment status is \<open>paid\<close> and \<open>pending\<close> otherwise.
\<close>

theorem update_payment_status_rule:
  assumes "db oid = Some row"
    and "update_order_payment_status now oid ps shot db = (err, db')"
  shows "err = None \<and>
         (\<exists>row'. db' oid = Some row' \<and> payment_status row' = ps \<and>
            ((\<exists>path. shot = Some path \<and> path \<noteq> []) \<longrightarrow>
               status row' = (if ps = ''pending'' then ''awaiting_verification''
                              else ''confirmed'')) \<and>
            (shot = None \<longrightarrow>
               status row' = (if ps = ''paid'' then ''confirmed'' else ''pending'')))"
  using assms
  by (auto simp: update_order_payment_status_def updated_row_def truthy_def)

theorem update_payment_status_rule_witness:
  "map_option status
     (snd (update_order_payment_status ''2024-01-01T10:05:00'' ''PH-A1B2C3D4'' ''pending''
        (Some ''data/uploads/PH-A1B2C3D4_shot.png'') [''PH-A1B2C3D4'' \<mapsto> sample_order])
        ''PH-A1B2C3D4'')
     = Some ''awaiting_verification''
   \<and> map_option status
     (snd (update_order_payment_status ''2024-01-01T10:05:00'' ''PH-A1B2C3D4'' ''paid''
        None [''PH-A1B2C3D4'' \<mapsto> sample_order]) ''PH-A1B2C3D4'')
     = Some ''confirmed''"
proof -
  let ?db = "[''PH-A1B2C3D4'' \<mapsto> sample_order]"
  have e: "?db ''PH-A1B2C3D4'' = Some sample_order" by simp
  obtain e1 d1 where r1:
    "update_order_payment_status ''2024-01-01T10:05:00'' ''PH-A1B2C3D4'' ''pending''
        (Some ''data/uploads/PH-A1B2C3D4_shot.png'') ?db = (e1, d1)" by force
  obtain e2 d2 where r2:
    "update_order_payment_status ''2024-01-01T10:05:00'' ''PH-A1B2C3D4'' ''paid''
        None ?db = (e2, d2)" by force
  from update_payment_status_rule [OF e r1] update_payment_status_rule [OF e r2]
  show ?thesis unfolding r1 r2 by auto
qed

text \<open>
  Claim C5. Creating an order whose \<open>order_id\<close> is already in the table fails with
  \<open>IntegrityError\<close> (the primary key's duplicate-order failure) and leaves the table,
  and so the row stored under that identifier, as it was.
\<close>

theorem duplicate_create_fails:
  assumes "db (order_id order) = Some row"
  shows "persist_order_to_db order db = (Some IntegrityError, db)
         \<and> snd (persist_order_to_db order db) (order_id order) = Some row"
  using assms by (simp add: persist_order_to_db_def)

theorem duplicate_create_fails_witness:
  "persist_order_to_db (sample_order\<lparr>order_total := 1, status := ''confirmed''\<rparr>)
       (snd (persist_order_to_db sample_order Map.empty))
     = (Some IntegrityError, [''PH-A1B2C3D4'' \<mapsto> sample_order])"
proof -
  have a: "persist_order_to_db sample_order Map.empty
             = (None, [''PH-A1B2C3D4'' \<mapsto> sample_order])"
    by (simp add: persist_order_to_db_def sample_order_def)
  have b: "[''PH-A1B2C3D4'' \<mapsto> sample_order]
             (order_id (sample_order\<lparr>order_total := 1, status := ''confirmed''\<rparr>))
           = Some sample_order"
    by (simp add: sample_order_def)
  show ?thesis
    using duplicate_create_fails [of "[''PH-A1B2C3D4'' \<mapsto> sample_order]"
        "sample_order\<lparr>order_total := 1, status := ''confirmed''\<rparr>" sample_order] a b
    by simp
qed

text \<open>
  Claim C6 as stated does not hold: on a table with no order \<open>PH-DEADBEEF\<close>,
  \<open>update_order_payment_status\<close> raises nothing and returns the table as it was.
\<close>

theorem update_absent_raises_nothing:
  "update_order_payment_status ''2024-01-01T10:05:00'' ''PH-DEADBEEF'' ''paid'' None Map.empty
     = (None, Map.empty)"
  by (simp add: update_order_payment_status_def)

text \<open>
  Claim C6, amended. For an \<open>order_id\<close> that is not in the table,
  \<open>update_order_payment_status\<close> returns normally and leaves the table unchanged (its
  \<open>UPDATE\<close> matches no row); the failure for an unknown order is reported by
  \<open>verify_order\<close>, which looks the order up before it updates and answers 404 with
  nothing changed.
\<close>

theorem update_absent_is_noop:
  "(db oid = None \<longrightarrow> update_order_payment_status now oid ps shot db = (None, db))
   \<and> (orders w oid = None \<longrightarrow> verify_order oid verified now w = (Order_Not_Found_404, w))"
  by (simp add: update_order_payment_status_def verify_order_def)

theorem update_absent_is_noop_witness:
  "update_order_payment_status ''2024-01-01T10:05:00'' ''PH-DEADBEEF'' ''failed''
       (Some ''data/uploads/PH-DEADBEEF_x.png'') [''PH-A1B2C3D4'' \<mapsto> sample_order]
     = (None, [''PH-A1B2C3D4'' \<mapsto> sample_order])
   \<and> verify_order ''PH-DEADBEEF'' True ''2024-01-01T10:05:00'' initial_world
     = (Order_Not_Found_404, initial_world)"
  using update_absent_is_noop [of "[''PH-A1B2C3D4'' \<mapsto> sample_order]" "''PH-DEADBEEF''"
      "''2024-01-01T10:05:00''" "''failed''" "Some ''data/uploads/PH-DEADBEEF_x.png''"
      initial_world True]
  by (simp add: initial_world_def)

subsection \<open>Manual verification\<close>

text \<open>
  Claim C7. For an order that exists, \<open>verify_order\<close> with \<open>verified\<close> true answers
  \<open>verified\<close>, sets \<open>payment_status\<close> to \<open>paid\<close> and \<open>status\<close> to \<open>confirmed\<close>, tells
  the customer, and starts the rider notification with the items, address and total of
  the stored row. Every other column of the row stays as it was: \<open>verified_at\<close> is not
  stamped, because \<open>update_order_payment_status\<close> is called without a screenshot and
  only its screenshot branch writes that column.
\<close>

theorem verify_order_keeps_verified_at:
  assumes "orders w oid = Some row"
  shows "verify_order oid True now w =
           (Status_Verified,
            w\<lparr>orders := (orders w)(oid \<mapsto> row\<lparr>payment_status := ''paid'', status := ''confirmed''\<rparr>),
              outbox := outbox w @ [(customer_phone row, Payment_Verified oid)],
              rider_jobs := rider_jobs w @
                [\<lparr>r_order_id = oid, r_customer_phone = customer_phone row,
                  r_items = items_json row, r_address = address row,
                  r_total = order_total row\<rparr>]\<rparr>)"
  using assms
  by (simp add: verify_order_def update_order_payment_status_def updated_row_def truthy_def
      set_status_def send_whatsapp_def start_notify_rider_def)

text \<open>
  On a table that holds the example order, whose \<open>verified_at\<close> is NULL: after the
  verification the order is paid and confirmed and \<open>verified_at\<close> is still NULL.
\<close>

theorem verify_order_keeps_verified_at_witness:
  "map_option (\<lambda>r. (payment_status r, status r, verified_at r))
     (orders (snd (verify_order ''PH-A1B2C3D4'' True ''2024-01-01T10:30:00''
        (initial_world\<lparr>orders := [''PH-A1B2C3D4'' \<mapsto> sample_order]\<rparr>))) ''PH-A1B2C3D4'')
     = Some (''paid'', ''confirmed'', None)"
  using verify_order_keeps_verified_at [of "initial_world\<lparr>orders := [''PH-A1B2C3D4'' \<mapsto> sample_order]\<rparr>"
      "''PH-A1B2C3D4''" sample_order "''2024-01-01T10:30:00''"]
  by (simp add: sample_order_def)

lemma update_keeps_amounts:
  assumes "update_order_payment_status now oid ps shot db = (e, db')" and "db k = Some row"
  shows "\<exists>row'. db' k = Some row' \<and> order_total row' = order_total row
           \<and> subtotal row' = subtotal row \<and> delivery_charges row' = delivery_charges row
           \<and> items_json row' = items_json row"
  using assms
  by (auto simp: update_order_payment_status_def updated_row_def split: option.splits)

lemma verify_keeps_amounts:
  assumes "verify_order oid verified now w = (r, w')" and "orders w k = Some row"
  shows "\<exists>row'. orders w' k = Some row' \<and> order_total row' = order_total row
           \<and> subtotal row' = subtotal row \<and> delivery_charges row' = delivery_charges row
           \<and> items_json row' = items_json row"
  using assms
  by (auto simp: verify_order_def update_order_payment_status_def updated_row_def truthy_def
      set_status_def send_whatsapp_def start_notify_rider_def Let_def
      split: option.splits if_splits)

subsection \<open>Intent routing\<close>

lemma lower_menu: "lower ''menu'' = ''menu''" by code_simp

lemma menu_in_show_menu: "sublist ''menu'' ''show menu''"
  unfolding contains_sublist [symmetric] by code_simp

lemma sublist_chain: "sublist a b \<Longrightarrow> sublist b c \<Longrightarrow> sublist a c"
  unfolding sublist_def by (metis append.assoc)

lemma usage_keyword_menu:
  "sublist ''menu'' s \<Longrightarrow>
     any_in [''order'', ''menu'', ''pizza'', ''place order'', ''order karna'', ''order krna''] s"
  by (simp add: contains_sublist)

text \<open>
  Claim C8. A message whose body is exactly \<open>menu\<close> is taken by the first rule, whose
  keyword list holds \<open>menu\<close>, and is answered with the usage prompt; the catalog is not
  rendered. No message at all reaches the second rule: both of its conditions put
  \<open>menu\<close> into the lower-cased body, which the first rule takes.
\<close>

theorem menu_message_gets_usage_prompt:
  "route gcm menu zones fresh now snd_id (Some ''menu'') w
     = (Status_Ok, send_whatsapp snd_id Usage_Prompt w)
   \<and> classify msg aw \<noteq> Show_Menu"
proof
  have "classify (Some ''menu'') aw' = Usage" for aw'
    using usage_keyword_menu [of "''menu''"] by (simp add: classify_def lower_menu)
  then show "route gcm menu zones fresh now snd_id (Some ''menu'') w
     = (Status_Ok, send_whatsapp snd_id Usage_Prompt w)"
    by (simp add: route_def)
next
  let ?l = "lower (case msg of None \<Rightarrow> [] | Some s \<Rightarrow> s)"
  have "sublist ''menu'' ?l" if "?l = ''menu'' \<or> contains ''show menu'' ?l"
    using that menu_in_show_menu sublist_chain [of "''menu''" "''show menu''" ?l]
    by (auto simp: contains_sublist)
  then show "classify msg aw \<noteq> Show_Menu"
    using usage_keyword_menu [of ?l]
    by (auto simp add: classify_def Let_def simp del: any_in.simps)
qed

lemma webhook_text:
  "whatsapp_webhook gcm menu zones fresh now (text_message s body) w
     = route gcm menu zones fresh now s (Some body) w"
  by (simp add: whatsapp_webhook_def text_message_def)

lemma classify_fries: "classify (Some ''fries'') aw = Select_Item" by code_simp

lemma classify_pickup: "classify (Some ''pickup'') aw = Pickup" by code_simp

lemma classify_checkout: "classify (Some ''checkout'') aw = Checkout" by code_simp

subsection \<open>Menu resolution\<close>

lemma find_by_name_mem: "find_by_name items m = Some it \<Longrightarrow> it \<in> set items"
  by (induction items) (auto split: if_splits)

lemma strip_small: "strip ''Chicken Tikka Pizza Small'' = ''Chicken Tikka Pizza Small''"
  by code_simp

lemma size_in_small: "detect_size size_tokens ''Chicken Tikka Pizza Small'' = Some ''L''"
  by code_simp

lemma small_contained:
  "find_contained default_menu (lower ''Chicken Tikka Pizza Small'')
     = Some \<lparr>name = ''Chicken Tikka Pizza'',
             prices = [(''Small'', 350), (''Medium'', 650), (''Large'', 950)]\<rparr>"
  by code_simp

lemma default_menu_with_L:
  "it \<in> set default_menu \<Longrightarrow>
     \<exists>p z. choose_with_size it ''L'' = Inr (Some (it, p, z)) \<and> z \<noteq> ''Small''"
  by (auto simp: default_menu_def choose_with_size_def)

text \<open>
  Claim C2. On the text \<open>Chicken Tikka Pizza Small\<close> the size scan meets the token
  \<open>l\<close> inside \<open>Small\<close> before it meets \<open>Small\<close>, and returns the label \<open>L\<close>, which
  no price table has. Whatever \<open>get_close_matches\<close> returns, the resolver does not
  answer the Small price 350 of Chicken Tikka Pizza; when the library returns the exact
  name, as it does on this text, the answer is the Medium price 650.
\<close>

theorem small_resolves_to_medium:
  "(\<forall>gcm. match_menu_item gcm default_menu ''Chicken Tikka Pizza Small''
       \<noteq> Inr (Some (\<lparr>name = ''Chicken Tikka Pizza'',
                        prices = [(''Small'', 350), (''Medium'', 650), (''Large'', 950)]\<rparr>,
                      350, ''Small'')))
   \<and> match_menu_item (\<lambda>w names. [''Chicken Tikka Pizza'']) default_menu
        ''Chicken Tikka Pizza Small''
       = Inr (Some (\<lparr>name = ''Chicken Tikka Pizza'',
                      prices = [(''Small'', 350), (''Medium'', 650), (''Large'', 950)]\<rparr>,
                    650, ''Medium''))
   \<and> detect_size size_tokens ''Chicken Tikka Pizza Small'' = Some ''L''"
proof (intro conjI allI)
  fix gcm :: "string \<Rightarrow> string list \<Rightarrow> string list"
  let ?t = "''Chicken Tikka Pizza Small''"
  show "match_menu_item gcm default_menu ?t
       \<noteq> Inr (Some (\<lparr>name = ''Chicken Tikka Pizza'',
                        prices = [(''Small'', 350), (''Medium'', 650), (''Large'', 950)]\<rparr>,
                      350, ''Small''))"
  proof (cases "case gcm ?t (map name default_menu) of [] \<Rightarrow> None
                  | m # ms \<Rightarrow> find_by_name default_menu m")
    case None
    then show ?thesis
      by (simp add: match_menu_item_def strip_small size_in_small small_contained
          choose_default_def)
  next
    case (Some it)
    then have "it \<in> set default_menu"
      by (auto split: list.splits dest: find_by_name_mem)
    then show ?thesis
      using Some default_menu_with_L [of it]
      by (auto simp add: match_menu_item_def strip_small size_in_small)
  qed
next
  show "match_menu_item (\<lambda>w names. [''Chicken Tikka Pizza'']) default_menu
        ''Chicken Tikka Pizza Small''
       = Inr (Some (\<lparr>name = ''Chicken Tikka Pizza'',
                      prices = [(''Small'', 350), (''Medium'', 650), (''Large'', 950)]\<rparr>,
                    650, ''Medium''))"
    by (simp add: match_menu_item_def strip_small size_in_small default_menu_def
        choose_with_size_def)
next
  show "detect_size size_tokens ''Chicken Tikka Pizza Small'' = Some ''L''"
    by (rule size_in_small)
qed

lemma strip_long:
  "strip ''Please deliver one Large Chicken Tikka Pizza to my house this evening''
     = ''Please deliver one Large Chicken Tikka Pizza to my house this evening''"
  by code_simp

lemma size_in_long:
  "detect_size size_tokens
     ''Please deliver one Large Chicken Tikka Pizza to my house this evening'' = Some ''Large''"
  by code_simp

lemma long_contained:
  "find_contained default_menu
     (lower ''Please deliver one Large Chicken Tikka Pizza to my house this evening'')
     = Some \<lparr>name = ''Chicken Tikka Pizza'',
             prices = [(''Small'', 350), (''Medium'', 650), (''Large'', 950)]\<rparr>"
  by code_simp

text \<open>
  Claim C9. When \<open>get_close_matches\<close> returns no name, the resolver falls back to the
  substring pass before it answers not-found, and that pass does not use the detected
  size: it answers Medium if the item has it, else OneSize, else the first entry of the
  price table.
\<close>

theorem substring_pass_ignores_size:
  assumes "gcm (strip msg) (map name items) = []"
  shows "match_menu_item gcm items msg =
           (case find_contained items (lower (strip msg)) of
              Some it \<Rightarrow> choose_default it
            | None \<Rightarrow> Inr None)"
  using assms by (simp add: match_menu_item_def)

text \<open>
  On a text of 69 characters that no catalog name matches closely: the size \<open>Large\<close>
  is detected and Chicken Tikka Pizza has a Large price of 950, which the fuzzy pass
  would answer, yet the substring pass answers Medium at 650.
\<close>

theorem substring_pass_ignores_size_witness:
  "detect_size size_tokens
     (strip ''Please deliver one Large Chicken Tikka Pizza to my house this evening'')
     = Some ''Large''
   \<and> choose_with_size \<lparr>name = ''Chicken Tikka Pizza'',
             prices = [(''Small'', 350), (''Medium'', 650), (''Large'', 950)]\<rparr> ''Large''
     = Inr (Some (\<lparr>name = ''Chicken Tikka Pizza'',
                      prices = [(''Small'', 350), (''Medium'', 650), (''Large'', 950)]\<rparr>,
                    950, ''Large''))
   \<and> match_menu_item (\<lambda>w names. []) default_menu
       ''Please deliver one Large Chicken Tikka Pizza to my house this evening''
     = Inr (Some (\<lparr>name = ''Chicken Tikka Pizza'',
                      prices = [(''Small'', 350), (''Medium'', 650), (''Large'', 950)]\<rparr>,
                    650, ''Medium''))"
  using substring_pass_ignores_size [of "\<lambda>w names. []"
      "''Please deliver one Large Chicken Tikka Pizza to my house this evening''" default_menu]
  by (simp add: strip_long size_in_long long_contained choose_default_def choose_with_size_def)

subsection \<open>Conversations\<close>

lemma default_menu_with_S:
  "it \<in> set default_menu \<Longrightarrow> \<exists>p z. choose_with_size it ''S'' = Inr (Some (it, p, z)) \<and> 0 < p"
  by (auto simp: default_menu_def choose_with_size_def)

lemma strip_fries: "strip ''fries'' = ''fries''" by code_simp

lemma size_in_fries: "detect_size size_tokens ''fries'' = Some ''S''" by code_simp

lemma fries_contained:
  "find_contained default_menu (lower ''fries'') = Some \<lparr>name = ''Fries'', prices = [(''OneSize'', 120)]\<rparr>"
  by code_simp

lemma match_fries:
  "\<exists>it p z. match_menu_item gcm default_menu ''fries'' = Inr (Some (it, p, z)) \<and> 0 < p"
proof (cases "case gcm ''fries'' (map name default_menu) of [] \<Rightarrow> None
                | m # ms \<Rightarrow> find_by_name default_menu m")
  case None
  then show ?thesis
    by (simp add: match_menu_item_def strip_fries size_in_fries fries_contained
        choose_default_def)
next
  case (Some it)
  then have "it \<in> set default_menu"
    by (auto split: list.splits dest: find_by_name_mem)
  then show ?thesis
    using Some default_menu_with_S [of it]
    by (auto simp add: match_menu_item_def strip_fries size_in_fries)
qed

lemma route_select_new:
  assumes "classify (Some msg) (awaiting_address (sessions w s)) = Select_Item"
    and "match_menu_item gcm menu msg = Inr (Some (it, p, z))"
    and "sessions w s = None"
  shows "route gcm menu zones fresh now s (Some msg) w =
           (Status_Ok,
            send_whatsapp s (Added_To_Cart z (name it) p p)
              (w\<lparr>sessions := (sessions w)(s \<mapsto> empty_session\<lparr>s_cart :=
                    Some [\<lparr>item_name = name it, item_size = z, item_price = p, item_qty = 1\<rparr>]\<rparr>)\<rparr>))"
  using assms by (simp add: route_def select_item_def cart_total_def)

lemma route_select_more:
  assumes "classify (Some msg) (awaiting_address (sessions w s)) = Select_Item"
    and "match_menu_item gcm menu msg = Inr (Some (it, p, z))"
    and "sessions w s = Some sess" and "s_cart sess = Some c"
  shows "route gcm menu zones fresh now s (Some msg) w =
           (Status_Ok,
            send_whatsapp s (Added_To_Cart z (name it) p
                 (cart_total (c @ [\<lparr>item_name = name it, item_size = z, item_price = p, item_qty = 1\<rparr>])))
              (w\<lparr>sessions := (sessions w)(s \<mapsto> sess\<lparr>s_cart :=
                    Some (c @ [\<lparr>item_name = name it, item_size = z, item_price = p, item_qty = 1\<rparr>])\<rparr>)\<rparr>))"
  using assms by (simp add: route_def select_item_def Let_def)

lemma route_checkout:
  assumes "sessions w s = Some sess" and "s_cart sess = Some c" and "c \<noteq> []"
  shows "route gcm menu zones fresh now s (Some ''checkout'') w =
           (Status_Ok,
            send_whatsapp s (Subtotal_Prompt (cart_total c))
              (w\<lparr>sessions := (sessions w)(s \<mapsto> sess\<lparr>s_subtotal := Some (cart_total c)\<rparr>)\<rparr>))"
  using assms
  by (simp add: route_def classify_checkout checkout_def session_with_cart_def Let_def)

lemma route_pickup_no_subtotal:
  assumes "sessions w s = Some sess" and "s_cart sess = Some c" and "c \<noteq> []"
    and "s_subtotal sess = None"
  shows "route gcm menu zones fresh now s (Some ''pickup'') w = (Raised (KeyError ''subtotal''), w)"
  using assms by (simp add: route_def classify_pickup pickup_def session_with_cart_def)

lemma route_pickup_order:
  assumes "sessions w s = Some sess" and "s_cart sess = Some c" and "c \<noteq> []"
    and "s_subtotal sess = Some sub" and "orders w (''PH-'' @ fresh) = None"
  shows "\<exists>w'. route gcm menu zones fresh now s (Some ''pickup'') w = (Status_Ok, w')
           \<and> orders w' (''PH-'' @ fresh) =
               Some \<lparr>order_id = ''PH-'' @ fresh, customer_phone = s,
                     customer_name = s_name sess, items_json = c, subtotal = sub,
                     delivery_charges = 0, order_total = sub,
                     payment_method = ''cod'', payment_status = ''pending'',
                     status = ''confirmed'', address = Some ''PICKUP'',
                     lat = None, lng = None, created_at = Some now,
                     verified_at = None, screenshot_path = None\<rparr>"
  using assms
  by (simp add: route_def classify_pickup pickup_def session_with_cart_def Let_def
      persist_order_to_db_def send_whatsapp_def start_notify_rider_def)

lemma pickup_empty_cart_guides:
  assumes "session_with_cart (sessions w s) = None"
  shows "route gcm menu zones fresh now s (Some ''pickup'') w
           = (Status_Ok, w\<lparr>outbox := outbox w @ [(s, Cart_Empty_Pickup)]\<rparr>)"
  using assms by (simp add: route_def classify_pickup pickup_def send_whatsapp_def)

text \<open>
  Claim C10. A sender who adds an item and then sends \<open>pickup\<close> without a \<open>checkout\<close>
  in between has a cart but no cached subtotal, and the branch \<open>pickup\<close> reads
  \<open>sess['subtotal']\<close> with no default: the second request raises \<open>KeyError\<close>. This
  holds whatever \<open>get_close_matches\<close> returns for \<open>fries\<close>.
\<close>

theorem pickup_before_checkout_raises:
  "fst (serve gcm default_menu default_zones
          [(text_message ''923001112233'' ''fries'', ''0A1B2C3D'', ''2024-01-01T10:00:00''),
           (text_message ''923001112233'' ''pickup'', ''4E5F6A7B'', ''2024-01-01T10:01:00'')]
          initial_world)
     = [Status_Ok, Raised (KeyError ''subtotal'')]"
proof -
  obtain it p z where m: "match_menu_item gcm default_menu ''fries'' = Inr (Some (it, p, z))"
    using match_fries by blast
  let ?s = "''923001112233''"
  let ?i = "\<lparr>item_name = name it, item_size = z, item_price = p, item_qty = 1\<rparr>"
  let ?sess = "empty_session\<lparr>s_cart := Some [?i]\<rparr>"
  let ?w1 = "send_whatsapp ?s (Added_To_Cart z (name it) p p)
               (initial_world\<lparr>sessions := (sessions initial_world)(?s \<mapsto> ?sess)\<rparr>)"
  have none: "sessions initial_world ?s = None" by (simp add: initial_world_def)
  have s1: "whatsapp_webhook gcm default_menu default_zones ''0A1B2C3D'' ''2024-01-01T10:00:00''
              (text_message ?s ''fries'') initial_world = (Status_Ok, ?w1)"
    unfolding webhook_text by (rule route_select_new [OF classify_fries m none])
  have sess1: "sessions ?w1 ?s = Some ?sess" by (simp add: send_whatsapp_def)
  have s2: "whatsapp_webhook gcm default_menu default_zones ''4E5F6A7B'' ''2024-01-01T10:01:00''
              (text_message ?s ''pickup'') ?w1 = (Raised (KeyError ''subtotal''), ?w1)"
    unfolding webhook_text
    by (rule route_pickup_no_subtotal [OF sess1]) (simp add: empty_session_def)+
  show ?thesis by (simp add: s1 s2)
qed

lemma persist_keeps_rows:
  assumes "persist_order_to_db order db = (e, db')" and "db k = Some row"
  shows "db' k = Some row"
  using assms by (auto simp: persist_order_to_db_def split: option.splits)

lemma pickup_keeps_rows:
  assumes "pickup fresh now s w = (r, w')" and "orders w k = Some row"
  shows "orders w' k = Some row"
  using assms
  by (auto simp: pickup_def persist_order_to_db_def send_whatsapp_def start_notify_rider_def
      Let_def split: option.splits prod.splits)

lemma online_keeps_rows:
  assumes "online fresh now s w = (r, w')" and "orders w k = Some row"
  shows "orders w' k = Some row"
  using assms
  by (auto simp: online_def persist_order_to_db_def send_whatsapp_def
      Let_def split: option.splits prod.splits if_splits)

lemma webhook_keeps_rows:
  assumes "whatsapp_webhook gcm menu zones fresh now p w = (r, w')" and "orders w k = Some row"
  shows "orders w' k = Some row"
proof (cases "sender p")
  case None
  with assms show ?thesis by (simp add: whatsapp_webhook_def)
next
  case (Some s)
  show ?thesis
  proof (cases "\<not> (message_type p = ''text'' \<or> has_text p)
                 \<and> (message_type p = ''location'' \<or> has_location p)")
    case True
    with assms Some show ?thesis
      by (auto simp: whatsapp_webhook_def send_whatsapp_def Let_def)
  next
    case False
    with assms Some have rt: "route gcm menu zones fresh now s
        (if message_type p = ''text'' \<or> has_text p then text_body p else None) w = (r, w')"
      by (auto simp: whatsapp_webhook_def Let_def)
    let ?m = "if message_type p = ''text'' \<or> has_text p then text_body p else None"
    show ?thesis
    proof (cases "classify ?m (awaiting_address (sessions w s))")
      case Pickup
      with rt assms(2) show ?thesis by (auto simp: route_def dest: pickup_keeps_rows)
    next
      case Online
      with rt assms(2) show ?thesis by (auto simp: route_def dest: online_keeps_rows)
    next
      case Select_Item
      with rt assms(2) show ?thesis
        by (auto simp: route_def select_item_def send_whatsapp_def Let_def
            split: sum.splits option.splits prod.splits)
    next
      case Give_Address
      with rt assms(2) show ?thesis
        by (auto simp: route_def give_address_def send_whatsapp_def Let_def
            split: sum.splits option.splits prod.splits)
    qed (use rt assms(2) in \<open>auto simp: route_def checkout_def cash_on_delivery_def
          lookup_order_def send_whatsapp_def Let_def split: option.splits prod.splits\<close>)
  qed
qed

lemma pickup_new_row:
  assumes "pickup fresh now s w = (r, w')" and "orders w k = None" and "orders w' k = Some row"
  shows "order_total row = subtotal row + delivery_charges row"
  using assms
  by (auto simp: pickup_def persist_order_to_db_def send_whatsapp_def start_notify_rider_def
      Let_def split: option.splits prod.splits if_splits)

lemma online_new_row:
  assumes "online fresh now s w = (r, w')" and "orders w k = None" and "orders w' k = Some row"
  shows "order_total row = subtotal row + delivery_charges row"
  using assms
  by (auto simp: online_def persist_order_to_db_def send_whatsapp_def
      Let_def split: option.splits prod.splits if_splits)

lemma webhook_new_row:
  assumes "whatsapp_webhook gcm menu zones fresh now p w = (r, w')"
    and "orders w k = None" and "orders w' k = Some row"
  shows "order_total row = subtotal row + delivery_charges row"
proof (cases "sender p")
  case None
  with assms show ?thesis by (simp add: whatsapp_webhook_def)
next
  case (Some s)
  show ?thesis
  proof (cases "\<not> (message_type p = ''text'' \<or> has_text p)
                 \<and> (message_type p = ''location'' \<or> has_location p)")
    case True
    with assms Some show ?thesis
      by (auto simp: whatsapp_webhook_def send_whatsapp_def Let_def)
  next
    case False
    let ?m = "if message_type p = ''text'' \<or> has_text p then text_body p else None"
    from False assms Some have rt: "route gcm menu zones fresh now s ?m w = (r, w')"
      by (auto simp: whatsapp_webhook_def Let_def)
    show ?thesis
    proof (cases "classify ?m (awaiting_address (sessions w s))")
      case Pickup
      with rt assms(2,3) show ?thesis by (auto simp: route_def dest: pickup_new_row)
    next
      case Online
      with rt assms(2,3) show ?thesis by (auto simp: route_def dest: online_new_row)
    next
      case Select_Item
      with rt assms(2,3) show ?thesis
        by (auto simp: route_def select_item_def send_whatsapp_def Let_def
            split: sum.splits option.splits prod.splits)
    next
      case Give_Address
      with rt assms(2,3) show ?thesis
        by (auto simp: route_def give_address_def send_whatsapp_def Let_def
            split: sum.splits option.splits prod.splits)
    qed (use rt assms(2,3) in \<open>auto simp: route_def checkout_def cash_on_delivery_def
          lookup_order_def send_whatsapp_def Let_def split: option.splits prod.splits\<close>)
  qed
qed

text \<open>
  Claim C4. The subtotal that \<open>checkout\<close> caches in the session is not refreshed when
  an item is added afterwards, and \<open>pickup\<close> stores it. After \<open>fries\<close>, \<open>checkout\<close>,
  \<open>fries\<close>, \<open>pickup\<close> the stored order holds two items; its total equals its subtotal
  plus its delivery charge, but the sum of its items plus the delivery charge is twice
  the stored total. This holds whatever \<open>get_close_matches\<close> returns for \<open>fries\<close>.
\<close>

theorem cached_subtotal_goes_stale:
  "\<exists>row. orders (snd (serve gcm default_menu default_zones
             [(text_message ''923001112233'' ''fries'', ''0A1B2C3D'', ''2024-01-01T10:00:00''),
              (text_message ''923001112233'' ''checkout'', ''4E5F6A7B'', ''2024-01-01T10:01:00''),
              (text_message ''923001112233'' ''fries'', ''8C9D0E1F'', ''2024-01-01T10:02:00''),
              (text_message ''923001112233'' ''pickup'', ''2A3B4C5D'', ''2024-01-01T10:03:00'')]
             initial_world)) ''PH-2A3B4C5D'' = Some row
       \<and> order_total row = subtotal row + delivery_charges row
       \<and> cart_total (items_json row) + delivery_charges row = 2 * order_total row
       \<and> 0 < order_total row"
proof -
  obtain it p z where m: "match_menu_item gcm default_menu ''fries'' = Inr (Some (it, p, z))"
    and p: "0 < p"
    using match_fries by blast
  let ?s = "''923001112233''"
  let ?i = "\<lparr>item_name = name it, item_size = z, item_price = p, item_qty = 1\<rparr>"
  let ?sess1 = "empty_session\<lparr>s_cart := Some [?i]\<rparr>"
  let ?w1 = "send_whatsapp ?s (Added_To_Cart z (name it) p p)
               (initial_world\<lparr>sessions := (sessions initial_world)(?s \<mapsto> ?sess1)\<rparr>)"
  let ?sess2 = "?sess1\<lparr>s_subtotal := Some (cart_total [?i])\<rparr>"
  let ?w2 = "send_whatsapp ?s (Subtotal_Prompt (cart_total [?i]))
               (?w1\<lparr>sessions := (sessions ?w1)(?s \<mapsto> ?sess2)\<rparr>)"
  let ?sess3 = "?sess2\<lparr>s_cart := Some ([?i] @ [?i])\<rparr>"
  let ?w3 = "send_whatsapp ?s (Added_To_Cart z (name it) p (cart_total ([?i] @ [?i])))
               (?w2\<lparr>sessions := (sessions ?w2)(?s \<mapsto> ?sess3)\<rparr>)"
  have none: "sessions initial_world ?s = None" by (simp add: initial_world_def)
  have s1: "whatsapp_webhook gcm default_menu default_zones ''0A1B2C3D'' ''2024-01-01T10:00:00''
              (text_message ?s ''fries'') initial_world = (Status_Ok, ?w1)"
    unfolding webhook_text by (rule route_select_new [OF classify_fries m none])
  have sess1: "sessions ?w1 ?s = Some ?sess1" by (simp add: send_whatsapp_def)
  have s2: "whatsapp_webhook gcm default_menu default_zones ''4E5F6A7B'' ''2024-01-01T10:01:00''
              (text_message ?s ''checkout'') ?w1 = (Status_Ok, ?w2)"
    unfolding webhook_text
    by (rule route_checkout [OF sess1]) (simp add: empty_session_def)+
  have sess2: "sessions ?w2 ?s = Some ?sess2" by (simp add: send_whatsapp_def)
  have s3: "whatsapp_webhook gcm default_menu default_zones ''8C9D0E1F'' ''2024-01-01T10:02:00''
              (text_message ?s ''fries'') ?w2 = (Status_Ok, ?w3)"
    unfolding webhook_text
    by (rule route_select_more [OF classify_fries m sess2]) (simp add: empty_session_def)
  have sess3: "sessions ?w3 ?s = Some ?sess3" by (simp add: send_whatsapp_def)
  have db3: "orders ?w3 (''PH-'' @ ''2A3B4C5D'') = None"
    by (simp add: send_whatsapp_def initial_world_def)
  have "\<exists>w'. route gcm default_menu default_zones ''2A3B4C5D'' ''2024-01-01T10:03:00'' ?s
               (Some ''pickup'') ?w3 = (Status_Ok, w')
           \<and> orders w' (''PH-'' @ ''2A3B4C5D'') =
               Some \<lparr>order_id = ''PH-'' @ ''2A3B4C5D'', customer_phone = ?s,
                     customer_name = s_name ?sess3, items_json = [?i] @ [?i],
                     subtotal = cart_total [?i],
                     delivery_charges = 0, order_total = cart_total [?i],
                     payment_method = ''cod'', payment_status = ''pending'',
                     status = ''confirmed'', address = Some ''PICKUP'',
                     lat = None, lng = None, created_at = Some ''2024-01-01T10:03:00'',
                     verified_at = None, screenshot_path = None\<rparr>"
    by (rule route_pickup_order [OF sess3 _ _ _ db3]) (simp add: empty_session_def)+
  then obtain w4 where s4: "whatsapp_webhook gcm default_menu default_zones ''2A3B4C5D''
              ''2024-01-01T10:03:00'' (text_message ?s ''pickup'') ?w3 = (Status_Ok, w4)"
    and row: "orders w4 ''PH-2A3B4C5D'' =
               Some \<lparr>order_id = ''PH-2A3B4C5D'', customer_phone = ?s,
                     customer_name = s_name ?sess3, items_json = [?i, ?i],
                     subtotal = cart_total [?i],
                     delivery_charges = 0, order_total = cart_total [?i],
                     payment_method = ''cod'', payment_status = ''pending'',
                     status = ''confirmed'', address = Some ''PICKUP'',
                     lat = None, lng = None, created_at = Some ''2024-01-01T10:03:00'',
                     verified_at = None, screenshot_path = None\<rparr>"
    unfolding webhook_text by auto
  have "snd (serve gcm default_menu default_zones
             [(text_message ?s ''fries'', ''0A1B2C3D'', ''2024-01-01T10:00:00''),
              (text_message ?s ''checkout'', ''4E5F6A7B'', ''2024-01-01T10:01:00''),
              (text_message ?s ''fries'', ''8C9D0E1F'', ''2024-01-01T10:02:00''),
              (text_message ?s ''pickup'', ''2A3B4C5D'', ''2024-01-01T10:03:00'')]
             initial_world) = w4"
    by (simp only: serve.simps s1 s2 s3 s4 prod.case snd_conv)
  then show ?thesis using row p by (simp add: cart_total_def)
qed

end
